theory Spec2Isabelle
  imports Complex_Main "HOL-Library.Sublist" "HOL-Library.AList"
begin

section \<open>Python values, strings and exceptions\<close>

text \<open>
  The repository is dynamically typed Python: news items are dictionaries whose values
  are strings, numbers, timestamps, NaN (an empty spreadsheet cell) or None.  Floats are
  modelled as reals.  A string is a list of code points below 256, the Latin-1 range of
  Unicode; on these \<open>str.strip\<close> and \<open>str.lower\<close> are as in Python: the
  whitespace is U+0009 to U+000D, U+001C to U+0020, U+0085 and U+00A0, and the letters
  with a lower case are A to Z and U+00C0 to U+00DE without U+00D7.
\<close>

datatype pyval = PStr string | PInt int | PFloat real | PTime int | PNaN | PNone

datatype error =
  AttributeError | TypeError | KeyError | ValueError | OverflowError
  | RequestException | JSONDecodeError

text \<open>A dictionary with string keys, in insertion order; \<open>map_of\<close> looks a key up.\<close>

type_synonym item = "(string \<times> pyval) list"

text \<open>Truth value of a Python object, as used by \<open>if not title\<close>.\<close>

fun truthy :: "pyval \<Rightarrow> bool" where
  "truthy (PStr s) = (s \<noteq> [])"
| "truthy (PInt i) = (i \<noteq> 0)"
| "truthy (PFloat r) = (r \<noteq> 0)"
| "truthy (PTime t) = True"
| "truthy PNaN = True"
| "truthy PNone = False"

definition is_space :: "char \<Rightarrow> bool" where
  "is_space c = (c \<in> set [CHR '' '', CHR 0x09, CHR 0x0A, CHR 0x0B, CHR 0x0C, CHR 0x0D,
                          CHR 0x1C, CHR 0x1D, CHR 0x1E, CHR 0x1F, CHR 0x85, CHR 0xA0])"

definition upper_letters :: string where
  "upper_letters = ''ABCDEFGHIJKLMNOPQRSTUVWXYZ'' @
       [
        CHR 0xC0, CHR 0xC1, CHR 0xC2, CHR 0xC3, CHR 0xC4, CHR 0xC5, CHR 0xC6, CHR 0xC7,
        CHR 0xC8, CHR 0xC9, CHR 0xCA, CHR 0xCB, CHR 0xCC, CHR 0xCD, CHR 0xCE, CHR 0xCF,
        CHR 0xD0, CHR 0xD1, CHR 0xD2, CHR 0xD3, CHR 0xD4, CHR 0xD5, CHR 0xD6, CHR 0xD8,
        CHR 0xD9, CHR 0xDA, CHR 0xDB, CHR 0xDC, CHR 0xDD, CHR 0xDE]"

definition lower_letters :: string where
  "lower_letters = ''abcdefghijklmnopqrstuvwxyz'' @
       [
        CHR 0xE0, CHR 0xE1, CHR 0xE2, CHR 0xE3, CHR 0xE4, CHR 0xE5, CHR 0xE6, CHR 0xE7,
        CHR 0xE8, CHR 0xE9, CHR 0xEA, CHR 0xEB, CHR 0xEC, CHR 0xED, CHR 0xEE, CHR 0xEF,
        CHR 0xF0, CHR 0xF1, CHR 0xF2, CHR 0xF3, CHR 0xF4, CHR 0xF5, CHR 0xF6, CHR 0xF8,
        CHR 0xF9, CHR 0xFA, CHR 0xFB, CHR 0xFC, CHR 0xFD, CHR 0xFE]"

definition lower_char :: "char \<Rightarrow> char" where
  "lower_char c =
     (case map_of (zip upper_letters lower_letters) c of
        Some d \<Rightarrow> d
      | None \<Rightarrow> c)"

definition lower :: "string \<Rightarrow> string" where
  "lower s = map lower_char s"

definition strip :: "string \<Rightarrow> string" where
  "strip s = rev (dropWhile is_space (rev (dropWhile is_space s)))"

text \<open>\<open>w in t\<close> on strings: \<open>w\<close> occurs in \<open>t\<close> as a contiguous substring.\<close>

fun contains :: "string \<Rightarrow> string \<Rightarrow> bool" where
  "contains w [] = (w = [])"
| "contains w (c # cs) = (prefix w (c # cs) \<or> contains w cs)"

text \<open>The slice \<open>xs[:n]\<close>; a negative \<open>n\<close> counts from the end.\<close>

definition py_take :: "int \<Rightarrow> 'a list \<Rightarrow> 'a list" where
  "py_take n xs = (if 0 \<le> n then take (nat n) xs else take (length xs - nat (- n)) xs)"

text \<open>\<open>d.get(k, '''')\<close> on a dictionary.\<close>

definition get_str :: "item \<Rightarrow> string \<Rightarrow> pyval" where
  "get_str d k = (case map_of d k of None \<Rightarrow> PStr [] | Some v \<Rightarrow> v)"

section \<open>The sentiment scorer (sentiment.py)\<close>

datatype sentiment = Positive | Negative | Neutral

text \<open>
  The keyword configuration is the built-in default or whatever \<open>json.load\<close> read from
  the model path; \<open>NotADict\<close> stands for a loaded value without a \<open>get\<close> method.
\<close>

datatype config = Config (positive_keywords: "pyval list") (negative_keywords: "pyval list")
  | NotADict

definition default_config :: config where
  "default_config = Config
     (map PStr [''surge'', ''record'', ''exceeding'', ''strong'', ''grow'', ''growth'',
        ''breakthrough'', ''positive'', ''gain'', ''gains'', ''profit'', ''profitable'',
        ''success'', ''successful'', ''innovation'', ''innovative'', ''opportunity'',
        ''opportunities'', ''upbeat'', ''optimistic''])
     (map PStr [''downgrade'', ''concerns'', ''vulnerabilities'', ''issues'', ''challenges'',
        ''mount'', ''labor'', ''divided'', ''volatility'', ''fears'', ''recession'', ''loss'',
        ''losses'', ''debt'', ''decline'', ''fell'', ''fall'', ''drop'', ''bearish'',
        ''pessimistic'', ''bankruptcy'', ''lawsuit'', ''investigation'', ''regulatory'',
        ''scrutiny'', ''inflation'', ''shortage''])"

record metrics =
  m_model_version :: string
  m_timestamp :: real
  m_request_count :: int
  m_error_count :: int
  m_avg_latency_ms :: real
  m_error_rate :: real

record SentimentModel =
  model_version :: string
  max_length :: int
  config :: config
  request_count :: int
  error_count :: int
  latency_ms_sum :: real
  last_metrics_save :: real
  registry :: "metrics list"

text \<open>
  What one call of \<open>analyze\<close> reads from outside: the clock at its three readings, the
  draw of \<open>random.random()\<close>, and whether the metrics file could be written (and when).
\<close>

record call_env =
  t_start :: real
  t_end :: real
  t_check :: real
  t_saved :: real
  jitter :: real
  write_ok :: bool

record analysis =
  sentiment :: sentiment
  score :: real
  details :: "(nat \<times> nat) option"
  res_model_version :: "string option"
  latency_ms :: "real option"
  err :: "error option"

text \<open>
  \<open>sum(1 for word in keywords if word.lower() in text.lower())\<close>: one membership test
  per configured keyword; an entry that is not a string has no \<open>lower\<close> and raises.
\<close>

fun keyword_count :: "pyval list \<Rightarrow> string \<Rightarrow> error + nat" where
  "keyword_count [] text = Inr 0"
| "keyword_count (PStr w # ws) text =
     (case keyword_count ws text of
        Inl e \<Rightarrow> Inl e
      | Inr n \<Rightarrow> Inr ((if contains (lower w) (lower text) then 1 else 0) + n))"
| "keyword_count (v # ws) text = Inl AttributeError"

definition base_score :: "nat \<Rightarrow> nat \<Rightarrow> real" where
  "base_score hi lo = min (0.7 + 0.1 * (real hi - real lo)) 0.95"

fun analyze_rule_based :: "real \<Rightarrow> config \<Rightarrow> string \<Rightarrow> error + analysis" where
  "analyze_rule_based r NotADict text = Inl AttributeError"
| "analyze_rule_based r (Config pos neg) text =
     (case keyword_count pos text of
        Inl e \<Rightarrow> Inl e
      | Inr positive_count \<Rightarrow>
     (case keyword_count neg text of
        Inl e \<Rightarrow> Inl e
      | Inr negative_count \<Rightarrow>
          Inr \<lparr> sentiment =
                  (if positive_count > negative_count then Positive
                   else if negative_count > positive_count then Negative
                   else Neutral),
                score =
                  (if positive_count > negative_count
                     then base_score positive_count negative_count + r * 0.05
                   else if negative_count > positive_count
                     then base_score negative_count positive_count + r * 0.05
                   else 0.5 + r * 0.1),
                details = Some (positive_count, negative_count),
                res_model_version = None,
                latency_ms = None,
                err = None \<rparr>))"

text \<open>
  \<open>_save_metrics\<close>: appends a snapshot to the registry file; a failed write is logged
  and leaves the file and \<open>last_metrics_save\<close> as they were.
\<close>

definition save_metrics :: "call_env \<Rightarrow> SentimentModel \<Rightarrow> SentimentModel" where
  "save_metrics env m =
     (let avg_latency = latency_ms_sum m / real_of_int (max 1 (request_count m));
          error_rate = real_of_int (error_count m) / real_of_int (max 1 (request_count m));
          snap = \<lparr> m_model_version = model_version m, m_timestamp = t_check env,
                   m_request_count = request_count m, m_error_count = error_count m,
                   m_avg_latency_ms = avg_latency, m_error_rate = error_rate \<rparr>
      in if write_ok env
         then m\<lparr> registry := registry m @ [snap], last_metrics_save := t_saved env \<rparr>
         else m)"

text \<open>
  \<open>SentimentModel.analyze\<close>.  The result is a sum so that an exception leaving the
  method would be visible as \<open>Inl\<close>; the \<open>except Exception\<close> handler turns every
  failure of the scoring into the neutral fallback.
\<close>

definition analyze ::
  "call_env \<Rightarrow> SentimentModel \<Rightarrow> string \<Rightarrow> error + (analysis \<times> SentimentModel)" where
  "analyze env m text0 =
     (let m1 = m\<lparr> request_count := request_count m + 1 \<rparr>;
          text = (if int (length text0) > max_length m1
                  then py_take (max_length m1) text0 else text0)
      in case analyze_rule_based (jitter env) (config m1) text of
           Inr result \<Rightarrow>
             (let latency = (t_end env - t_start env) * 1000;
                  m2 = m1\<lparr> latency_ms_sum := latency_ms_sum m1 + latency \<rparr>;
                  m3 = (if t_check env - last_metrics_save m2 > 60
                        then save_metrics env m2 else m2)
              in Inr (result\<lparr> res_model_version := Some (model_version m3),
                              latency_ms := Some latency \<rparr>, m3))
         | Inl e \<Rightarrow>
             Inr (\<lparr> sentiment = Neutral, score = 0.5, details = None,
                    res_model_version = Some (model_version m1),
                    latency_ms = None, err = Some e \<rparr>,
                  m1\<lparr> error_count := error_count m1 + 1 \<rparr>))"

section \<open>Dates\<close>

text \<open>
  Instants are microseconds since \<open>datetime.min\<close>.  \<open>timedelta(days=d)\<close> raises
  \<open>OverflowError\<close> beyond 999999999 days, and so does a subtraction whose result
  leaves the range of \<open>datetime\<close>.  \<open>strftime\<close> with the format of the
  repository followed by \<open>strptime\<close> drops the microseconds.  The readings of
  \<open>datetime.now()\<close> within one call of an adapter are taken as one instant.
\<close>

definition day_us :: int where
  "day_us = 86400000000"

definition max_instant :: int where
  "max_instant = 3652059 * day_us - 1"

definition days_ago :: "int \<Rightarrow> int \<Rightarrow> error + int" where
  "days_ago now d =
     (if d < - 999999999 \<or> 999999999 < d then Inl OverflowError
      else if now - d * day_us < 0 \<or> max_instant < now - d * day_us then Inl OverflowError
      else Inr (now - d * day_us))"

definition trunc_sec :: "int \<Rightarrow> int" where
  "trunc_sec t = t - t mod 1000000"

section \<open>The primary source (news_api.py)\<close>

text \<open>
  An article is the part of a NewsAPI JSON object the code reads: \<open>a_title\<close> is
  \<open>None\<close> for an absent or null title; \<open>a_published\<close> is the instant that
  \<open>strptime\<close> reads from \<open>publishedAt\<close>, \<open>None\<close> when it raises
  \<open>ValueError\<close> or \<open>TypeError\<close>.
\<close>

record article =
  a_title :: "string option"
  a_source_name :: string
  a_url :: string
  a_published :: "int option"

datatype body = Unparseable | Json (articles: "article list") (totalResults: int)

datatype response = NetworkError | Response int body

record request =
  r_company :: string
  r_ticker :: string
  r_search_days :: int
  r_page_size :: int
  r_page :: nat

definition company_names :: "(string \<times> string) list" where
  "company_names =
     [(''AAPL'', ''Apple''), (''MSFT'', ''Microsoft''), (''GOOGL'', ''Google''),
      (''AMZN'', ''Amazon''), (''TSLA'', ''Tesla''), (''META'', ''Facebook OR Meta''),
      (''NFLX'', ''Netflix''), (''NVDA'', ''Nvidia''), (''IBM'', ''IBM''),
      (''INTC'', ''Intel''), (''AMD'', ''AMD''), (''ORCL'', ''Oracle''),
      (''CRM'', ''Salesforce''), (''ADBE'', ''Adobe''), (''PYPL'', ''PayPal''),
      (''CSCO'', ''Cisco'')]"

definition company_name :: "string \<Rightarrow> string" where
  "company_name ticker = (case map_of company_names ticker of None \<Rightarrow> ticker | Some c \<Rightarrow> c)"

definition page_request :: "string \<Rightarrow> int \<Rightarrow> int \<Rightarrow> nat \<Rightarrow> request" where
  "page_request ticker days max_results page =
     \<lparr> r_company = company_name ticker, r_ticker = ticker, r_search_days = min days 30,
       r_page_size = min 100 max_results, r_page = page \<rparr>"

text \<open>
  The paging loop: \<open>while len(all_articles) < max_results\<close>.  A raised
  \<open>RequestException\<close> or a body that \<open>response.json()\<close> cannot read leaves the
  loop as an exception; a status other than 200 leaves it by \<open>break\<close>.
\<close>

function fetch_pages ::
  "(request \<Rightarrow> response) \<Rightarrow> string \<Rightarrow> int \<Rightarrow> int \<Rightarrow> nat \<Rightarrow> article list
     \<Rightarrow> error + article list" where
  "fetch_pages api ticker days max_results page all_articles =
     (if int (length all_articles) < max_results then
        (case api (page_request ticker days max_results page) of
           NetworkError \<Rightarrow> Inl RequestException
         | Response status_code b \<Rightarrow>
             if status_code = 429 then Inr all_articles
             else if status_code \<noteq> 200 then Inr all_articles
             else (case b of
                     Unparseable \<Rightarrow> Inl JSONDecodeError
                   | Json arts total_results \<Rightarrow>
                       if int (length arts) < min 100 max_results
                         then Inr (all_articles @ arts)
                       else if total_results \<le> int (length (all_articles @ arts))
                         then Inr (all_articles @ arts)
                       else fetch_pages api ticker days max_results (page + 1)
                              (all_articles @ arts)))
      else Inr all_articles)"
  by pat_completeness auto
termination
  by (relation "measure (\<lambda>(api, ticker, days, max_results, page, all_articles).
                   nat (max_results - int (length all_articles)))") auto

declare fetch_pages.simps [simp del]

definition news_entry :: "string \<Rightarrow> string \<Rightarrow> string \<Rightarrow> int \<Rightarrow> string \<Rightarrow> item" where
  "news_entry title publisher link published ticker =
     [(''title'', PStr title), (''publisher'', PStr publisher), (''link'', PStr link),
      (''published_date'', PTime published), (''ticker'', PStr ticker)]"

text \<open>
  The formatting loop over \<open>all_articles[:max_results]\<close>: untitled articles and
  repeated normalized titles are skipped; a title is marked as seen before its date is
  read, so an article with an unreadable date still shadows later duplicates.
\<close>

fun build_items :: "string \<Rightarrow> string set \<Rightarrow> article list \<Rightarrow> item list" where
  "build_items ticker seen_titles [] = []"
| "build_items ticker seen_titles (a # rest) =
     (case a_title a of
        None \<Rightarrow> build_items ticker seen_titles rest
      | Some title \<Rightarrow>
          if title = [] then build_items ticker seen_titles rest
          else if lower (strip title) \<in> seen_titles then build_items ticker seen_titles rest
          else (case a_published a of
                  None \<Rightarrow> build_items ticker (insert (lower (strip title)) seen_titles) rest
                | Some published \<Rightarrow>
                    news_entry title (a_source_name a) (a_url a) published ticker
                      # build_items ticker (insert (lower (strip title)) seen_titles) rest))"

text \<open>
  \<open>get_news_from_api\<close>: the date window is computed first; every exception of the
  body is caught and answered with the empty list.
\<close>

definition get_news_from_api ::
  "(request \<Rightarrow> response) \<Rightarrow> int \<Rightarrow> string \<Rightarrow> int \<Rightarrow> int \<Rightarrow> item list" where
  "get_news_from_api api now ticker days max_results =
     (case days_ago now (min days 30) of
        Inl e \<Rightarrow> []
      | Inr start_date \<Rightarrow>
     (case fetch_pages api ticker days max_results 1 [] of
        Inl e \<Rightarrow> []
      | Inr all_articles \<Rightarrow> build_items ticker {} (py_take max_results all_articles)))"

text \<open>\<open>is_api_key_valid\<close>: the probe succeeds only on status 200.\<close>

fun is_api_key_valid :: "response \<Rightarrow> bool" where
  "is_api_key_valid NetworkError = False"
| "is_api_key_valid (Response status_code b) = (status_code = 200)"

section \<open>The secondary source (excel_news.py)\<close>

text \<open>
  The spreadsheet is a list of rows, each a dictionary keyed by column name, or
  \<open>None\<close> when the file is missing or cannot be read.  \<open>pd.to_datetime\<close> on a
  \<open>published_date\<close> cell: a timestamp is itself and an empty cell is NaT, which
  compares false; every other cell, such as the date strings that the demo generator
  writes, is read by the parser of pandas, a parameter here: it answers with the instant,
  with NaT (\<open>None\<close>), or raises.
\<close>

definition cell_instant :: "(pyval \<Rightarrow> error + int option) \<Rightarrow> pyval \<Rightarrow> error + int option" where
  "cell_instant to_datetime v =
     (case v of
        PTime t \<Rightarrow> Inr (Some t)
      | PNaN \<Rightarrow> Inr None
      | PNone \<Rightarrow> Inr None
      | other \<Rightarrow> to_datetime other)"

definition row_selected ::
  "(pyval \<Rightarrow> error + int option) \<Rightarrow> string \<Rightarrow> int \<Rightarrow> item \<Rightarrow> error + bool" where
  "row_selected to_datetime ticker cutoff_date row =
     (case map_of row ''ticker'' of
        None \<Rightarrow> Inl KeyError
      | Some t \<Rightarrow>
          (case map_of row ''published_date'' of
             None \<Rightarrow> Inl KeyError
           | Some v \<Rightarrow>
               (case cell_instant to_datetime v of
                  Inl e \<Rightarrow> Inl e
                | Inr None \<Rightarrow> Inr False
                | Inr (Some published) \<Rightarrow>
                    Inr ((t = PStr ticker \<or> t = PStr ''GENERAL'')
                         \<and> published \<ge> cutoff_date))))"

fun select_rows ::
  "(pyval \<Rightarrow> error + int option) \<Rightarrow> string \<Rightarrow> int \<Rightarrow> item list \<Rightarrow> error + item list" where
  "select_rows to_datetime ticker cutoff_date [] = Inr []"
| "select_rows to_datetime ticker cutoff_date (row # df) =
     (case row_selected to_datetime ticker cutoff_date row of
        Inl e \<Rightarrow> Inl e
      | Inr keep \<Rightarrow>
          (case select_rows to_datetime ticker cutoff_date df of
             Inl e \<Rightarrow> Inl e
           | Inr rows \<Rightarrow> Inr (if keep then row # rows else rows)))"

definition get_news_from_excel ::
  "item list option \<Rightarrow> (pyval \<Rightarrow> error + int option) \<Rightarrow> int \<Rightarrow> string \<Rightarrow> int
     \<Rightarrow> item list" where
  "get_news_from_excel excel_file to_datetime now ticker days =
     (case excel_file of
        None \<Rightarrow> []
      | Some df \<Rightarrow>
          (case days_ago now days of
             Inl e \<Rightarrow> []
           | Inr cutoff_date \<Rightarrow>
               (case select_rows to_datetime ticker cutoff_date df of
                  Inl e \<Rightarrow> []
                | Inr news_items \<Rightarrow> news_items)))"

section \<open>The tertiary source (get_demo_news in news_scraper.py)\<close>

definition hours_us :: "int \<Rightarrow> int \<Rightarrow> int" where
  "hours_us d h = (d * 24 + h) * 3600000000"

definition demo_row :: "int \<Rightarrow> string \<Rightarrow> string \<Rightarrow> string \<Rightarrow> int \<Rightarrow> item" where
  "demo_row now title publisher link back =
     [(''title'', PStr title), (''publisher'', PStr publisher), (''link'', PStr link),
      (''published_date'', PTime (trunc_sec (now - back)))]"

definition common_news :: "int \<Rightarrow> item list" where
  "common_news now =
     [demo_row now ''Markets reach record highs as tech stocks surge'' ''Financial Times''
        ''https://example.com/markets-record-high'' (hours_us 1 0),
      demo_row now ''Federal Reserve announces plans to maintain interest rates''
        ''Wall Street Journal'' ''https://example.com/fed-rates'' (hours_us 2 0),
      demo_row now ''Global recession fears grow as manufacturing slows'' ''Reuters''
        ''https://example.com/recession-fears'' (hours_us 3 0),
      demo_row now ''Inflation data shows signs of moderating, analysts say'' ''Bloomberg''
        ''https://example.com/inflation-data'' (hours_us 4 0)]"

definition example_link :: "string \<Rightarrow> string \<Rightarrow> string" where
  "example_link ticker slug = ''https://example.com/'' @ lower ticker @ slug"

definition ticker_news :: "int \<Rightarrow> string \<Rightarrow> (string \<times> item list) list" where
  "ticker_news now ticker =
     [(''AAPL'',
        [demo_row now (ticker @ '' reports record quarterly earnings, exceeding expectations'')
           ''CNBC'' (example_link ticker ''-earnings'') (hours_us 1 4),
         demo_row now (''New '' @ ticker @ '' product line launches to strong demand'')
           ''TechCrunch'' (example_link ticker ''-product-launch'') (hours_us 2 6),
         demo_row now (''Analyst downgrades '' @ ticker @ '' citing supply chain concerns'')
           ''Seeking Alpha'' (example_link ticker ''-downgrade'') (hours_us 3 8)]),
      (''MSFT'',
        [demo_row now (ticker @ '' cloud services grow 40% year-over-year'')
           ''CNBC'' (example_link ticker ''-cloud-growth'') (hours_us 1 3),
         demo_row now (ticker @ '' announces new AI partnerships with industry leaders'')
           ''TechCrunch'' (example_link ticker ''-ai-partnerships'') (hours_us 2 5),
         demo_row now (''Security vulnerabilities discovered in '' @ ticker @ '' products'')
           ''ZDNet'' (example_link ticker ''-security-issues'') (hours_us 3 7)]),
      (''GOOGL'',
        [demo_row now (ticker @ '' ad revenue exceeds projections in quarterly report'')
           ''CNBC'' (example_link ticker ''-ad-revenue'') (hours_us 1 2),
         demo_row now (''Regulatory challenges mount for '' @ ticker @ '' in European markets'')
           ''Financial Times'' (example_link ticker ''-eu-regulation'') (hours_us 2 4),
         demo_row now
           (ticker @ '' unveils new search algorithm with enhanced AI capabilities'')
           ''The Verge'' (example_link ticker ''-search-ai'') (hours_us 3 6)]),
      (''AMZN'',
        [demo_row now (ticker @ '' e-commerce sales surge during holiday season'')
           ''Reuters'' (example_link ticker ''-holiday-sales'') (hours_us 1 1),
         demo_row now (ticker @ '' expands logistics network with new fulfillment centers'')
           ''Business Insider'' (example_link ticker ''-logistics-expansion'') (hours_us 2 3),
         demo_row now (''Labor union pushes for worker rights at '' @ ticker @ '' warehouses'')
           ''Washington Post'' (example_link ticker ''-labor-issues'') (hours_us 3 5)]),
      (''TSLA'',
        [demo_row now (ticker @ '' production numbers hit new record in latest quarter'')
           ''Electrek'' (example_link ticker ''-production-record'') (hours_us 1 1),
         demo_row now (ticker @ '' CEO announces new battery technology breakthrough'')
           ''CleanTechnica'' (example_link ticker ''-battery-tech'') (hours_us 2 2),
         demo_row now
           (''Analysts divided on '' @ ticker @ '' stock valuation after recent volatility'')
           ''Barron's'' (example_link ticker ''-valuation-debate'') (hours_us 3 3)])]"

definition default_ticker_news :: "int \<Rightarrow> string \<Rightarrow> item list" where
  "default_ticker_news now ticker =
     [demo_row now (ticker @ '' shares move on market trends'') ''Market Watch''
        (example_link ticker ''-shares'') (hours_us 1 2),
      demo_row now (''Analysts issue new price targets for '' @ ticker) ''Seeking Alpha''
        (example_link ticker ''-price-targets'') (hours_us 2 5),
      demo_row now (ticker @ '' announces quarterly dividend'') ''Investor's Business Daily''
        (example_link ticker ''-dividend'') (hours_us 3 8)]"

text \<open>
  The date filter of \<open>get_demo_news\<close>: a row older than the cutoff is skipped, the
  others get the \<open>ticker\<close> key.
\<close>

fun filter_by_date :: "string \<Rightarrow> int \<Rightarrow> item list \<Rightarrow> error + item list" where
  "filter_by_date ticker cutoff_date [] = Inr []"
| "filter_by_date ticker cutoff_date (row # rest) =
     (case map_of row ''published_date'' of
        None \<Rightarrow> Inl KeyError
      | Some (PTime publish_date) \<Rightarrow>
          (case filter_by_date ticker cutoff_date rest of
             Inl e \<Rightarrow> Inl e
           | Inr filtered_news \<Rightarrow>
               Inr (if publish_date < cutoff_date then filtered_news
                    else AList.update ''ticker'' (PStr ticker) row # filtered_news))
      | Some v \<Rightarrow> Inl TypeError)"

text \<open>
  The literal dates reach back four days at most; the guard on \<open>now\<close> stands for the
  \<open>OverflowError\<close> of those subtractions.
\<close>

definition get_demo_news :: "int \<Rightarrow> string \<Rightarrow> int \<Rightarrow> error + item list" where
  "get_demo_news now ticker days =
     (case days_ago now days of
        Inl e \<Rightarrow> Inl e
      | Inr cutoff_date \<Rightarrow>
          if now - hours_us 4 0 < 0 then Inl OverflowError
          else filter_by_date ticker cutoff_date
                 (common_news now @
                  (case map_of (ticker_news now ticker) ticker of
                     None \<Rightarrow> default_ticker_news now ticker
                   | Some specific_news \<Rightarrow> specific_news)))"

section \<open>The aggregation pipeline (get_financial_news in news_scraper.py)\<close>

text \<open>
  \<open>item.get("title", "").strip().lower()\<close>: a title that is not a string has no
  \<open>strip\<close> and raises.
\<close>

definition normalized_title :: "item \<Rightarrow> error + string" where
  "normalized_title it =
     (case get_str it ''title'' of
        PStr s \<Rightarrow> Inr (lower (strip s))
      | v \<Rightarrow> Inl AttributeError)"

fun existing_titles :: "item list \<Rightarrow> error + string set" where
  "existing_titles [] = Inr {}"
| "existing_titles (it # news_items) =
     (case normalized_title it of
        Inl e \<Rightarrow> Inl e
      | Inr title \<Rightarrow>
          (case existing_titles news_items of
             Inl e \<Rightarrow> Inl e
           | Inr titles \<Rightarrow> Inr (insert title titles)))"

text \<open>
  The loop that adds the items of a further source (written twice in the source, for
  the spreadsheet and for the demo rows): an item is appended when its normalized title
  is non-empty and not yet in \<open>existing_titles\<close>.
\<close>

fun merge_loop :: "item list \<Rightarrow> item list \<Rightarrow> string set \<Rightarrow> error + item list" where
  "merge_loop [] news_items titles = Inr news_items"
| "merge_loop (it # rest) news_items titles =
     (case normalized_title it of
        Inl e \<Rightarrow> Inl e
      | Inr title \<Rightarrow>
          if title \<noteq> [] \<and> title \<notin> titles
            then merge_loop rest (news_items @ [it]) (insert title titles)
            else merge_loop rest news_items titles)"

definition merge_new :: "item list \<Rightarrow> item list \<Rightarrow> error + item list" where
  "merge_new items news_items =
     (if items = [] then Inr news_items
      else (case existing_titles news_items of
              Inl e \<Rightarrow> Inl e
            | Inr titles \<Rightarrow> merge_loop items news_items titles))"

definition sentiment_name :: "sentiment \<Rightarrow> string" where
  "sentiment_name s = (case s of Positive \<Rightarrow> ''positive'' | Negative \<Rightarrow> ''negative''
                       | Neutral \<Rightarrow> ''neutral'')"

definition scored_item :: "string \<Rightarrow> item \<Rightarrow> string \<Rightarrow> analysis \<Rightarrow> item" where
  "scored_item title it ticker sentiment_result =
     [(''title'', PStr title),
      (''publisher'', get_str it ''publisher''),
      (''link'', get_str it ''link''),
      (''published_date'', get_str it ''published_date''),
      (''ticker'', PStr ticker),
      (''sentiment'', PStr (sentiment_name (sentiment sentiment_result))),
      (''score'', PFloat (score sentiment_result))]"

text \<open>
  The scoring loop.  \<open>envs k\<close> is what the \<open>k\<close>-th call of the scorer reads from
  outside; the scorer is the process-wide singleton, so its state is threaded through
  and survives an exception.  A truthy title that is not a string cannot be sliced.
\<close>

fun process_items ::
  "(nat \<Rightarrow> call_env) \<Rightarrow> nat \<Rightarrow> SentimentModel \<Rightarrow> string \<Rightarrow> item list
     \<Rightarrow> (error + item list) \<times> SentimentModel" where
  "process_items envs k m ticker [] = (Inr [], m)"
| "process_items envs k m ticker (it # rest) =
     (case get_str it ''title'' of
        PStr title \<Rightarrow>
          if title = [] then process_items envs k m ticker rest
          else (case analyze (envs k) m title of
                  Inl e \<Rightarrow> (Inl e, m)
                | Inr (sentiment_result, m') \<Rightarrow>
                    (case process_items envs (Suc k) m' ticker rest of
                       (Inl e, m'') \<Rightarrow> (Inl e, m'')
                     | (Inr processed_items, m'') \<Rightarrow>
                         (Inr (scored_item title it ticker sentiment_result # processed_items),
                          m'')))
      | v \<Rightarrow>
          if truthy v then (Inl TypeError, m)
          else process_items envs k m ticker rest)"

datatype source = NewsAPI | Excel | Demo

text \<open>
  Everything outside the process that one request reads, and what it leaves behind: the
  adapters it called, in order, and the state of the scorer.
\<close>

record world =
  probe :: response
  news_api :: "request \<Rightarrow> response"
  excel_file :: "item list option"
  to_datetime :: "pyval \<Rightarrow> error + int option"
  wall_clock :: int
  scorer_env :: "nat \<Rightarrow> call_env"

record outcome =
  fetched :: "source list"
  model :: SentimentModel

text \<open>
  The three fetching steps of \<open>get_financial_news\<close>, each with the adapters it
  called: the primary source when the key is valid; the spreadsheet when the window is
  longer than 30 days or the primary source gave fewer than
  \<open>min(30, max_results // 2)\<close> items; the demo rows when fewer than five items are
  there.
\<close>

definition primary_fetch :: "world \<Rightarrow> string \<Rightarrow> int \<Rightarrow> int \<Rightarrow> source list \<times> item list" where
  "primary_fetch w ticker days max_results =
     (if is_api_key_valid (probe w)
      then ([NewsAPI], get_news_from_api (news_api w) (wall_clock w) ticker days max_results)
      else ([], []))"

definition supplement_excel ::
  "world \<Rightarrow> string \<Rightarrow> int \<Rightarrow> int \<Rightarrow> item list \<Rightarrow> source list \<times> (error + item list)" where
  "supplement_excel w ticker days max_results news_items =
     (let excel_threshold = min 30 (max_results div 2)
      in if days > 30 \<or> int (length news_items) < excel_threshold
         then ([Excel],
               merge_new (get_news_from_excel (excel_file w) (to_datetime w) (wall_clock w) ticker days)
                 news_items)
         else ([], Inr news_items))"

definition last_resort_demo ::
  "world \<Rightarrow> string \<Rightarrow> int \<Rightarrow> item list \<Rightarrow> source list \<times> (error + item list)" where
  "last_resort_demo w ticker days news_items =
     (if news_items = [] \<or> length news_items < 5
      then ([Demo],
            (case get_demo_news (wall_clock w) ticker days of
               Inl e \<Rightarrow> Inl e
             | Inr demo_items \<Rightarrow> merge_new demo_items news_items))
      else ([], Inr news_items))"

text \<open>The body of the \<open>try\<close> block of \<open>get_financial_news\<close>.\<close>

definition get_financial_news_try ::
  "world \<Rightarrow> SentimentModel \<Rightarrow> string \<Rightarrow> int \<Rightarrow> int \<Rightarrow> (error + item list) \<times> outcome" where
  "get_financial_news_try w m ticker days max_results =
     (case primary_fetch w ticker days max_results of (fetched0, api_items) \<Rightarrow>
      case supplement_excel w ticker days max_results api_items of
        (fetched1, Inl e) \<Rightarrow> (Inl e, \<lparr> fetched = fetched0 @ fetched1, model = m \<rparr>)
      | (fetched1, Inr news_items) \<Rightarrow>
     (case last_resort_demo w ticker days news_items of
        (fetched2, Inl e) \<Rightarrow>
          (Inl e, \<lparr> fetched = fetched0 @ fetched1 @ fetched2, model = m \<rparr>)
      | (fetched2, Inr merged) \<Rightarrow>
     (let truncated = (if int (length merged) > max_results then py_take max_results merged
                       else merged)
      in case process_items (scorer_env w) 0 m ticker truncated of
           (r, m') \<Rightarrow> (r, \<lparr> fetched = fetched0 @ fetched1 @ fetched2, model = m' \<rparr>))))"

text \<open>
  \<open>get_financial_news\<close>: \<open>days\<close> is raised to 1 at least, and the handler of the
  \<open>try\<close> block answers every exception with the empty list.
\<close>

definition get_financial_news ::
  "world \<Rightarrow> SentimentModel \<Rightarrow> string \<Rightarrow> int \<Rightarrow> int \<Rightarrow> (error + item list) \<times> outcome" where
  "get_financial_news w m ticker days max_results =
     (case get_financial_news_try w m ticker (max 1 days) max_results of
        (Inl e, out) \<Rightarrow> (Inr [], out)
      | (Inr processed_items, out) \<Rightarrow> (Inr processed_items, out))"

section \<open>The summary (get_sentiment_summary_endpoint in api.py)\<close>

definition sentiment_values :: "(string \<times> int) list" where
  "sentiment_values = [(''positive'', 1), (''neutral'', 0), (''negative'', - 1)]"

definition sentiment_of :: "item \<Rightarrow> error + pyval" where
  "sentiment_of it = (case map_of it ''sentiment'' of None \<Rightarrow> Inl KeyError | Some v \<Rightarrow> Inr v)"

definition polarity :: "item \<Rightarrow> error + int" where
  "polarity it =
     (case map_of it ''sentiment'' of
        Some (PStr s) \<Rightarrow>
          (case map_of sentiment_values s of None \<Rightarrow> Inl KeyError | Some v \<Rightarrow> Inr v)
      | other \<Rightarrow> Inl KeyError)"

definition score_of :: "item \<Rightarrow> error + real" where
  "score_of it =
     (case map_of it ''score'' of
        None \<Rightarrow> Inl KeyError
      | Some (PFloat r) \<Rightarrow> Inr r
      | Some (PInt i) \<Rightarrow> Inr (real_of_int i)
      | Some v \<Rightarrow> Inl TypeError)"

text \<open>\<open>sum(1 for item in news if item["sentiment"] == label)\<close>.\<close>

fun count_sentiment :: "string \<Rightarrow> item list \<Rightarrow> error + int" where
  "count_sentiment label [] = Inr 0"
| "count_sentiment label (it # news) =
     (case sentiment_of it of
        Inl e \<Rightarrow> Inl e
      | Inr v \<Rightarrow>
          (case count_sentiment label news of
             Inl e \<Rightarrow> Inl e
           | Inr n \<Rightarrow> Inr ((if v = PStr label then 1 else 0) + n)))"

text \<open>
  The three sums over the items: polarity times score, score, and polarity.
\<close>

fun sentiment_sums :: "item list \<Rightarrow> error + (real \<times> real \<times> int)" where
  "sentiment_sums [] = Inr (0, 0, 0)"
| "sentiment_sums (it # news) =
     (case polarity it of
        Inl e \<Rightarrow> Inl e
      | Inr p \<Rightarrow>
          (case score_of it of
             Inl e \<Rightarrow> Inl e
           | Inr sc \<Rightarrow>
               (case sentiment_sums news of
                  Inl e \<Rightarrow> Inl e
                | Inr (weighted_sum, total_weight, polarity_sum) \<Rightarrow>
                    Inr (real_of_int p * sc + weighted_sum, sc + total_weight,
                         p + polarity_sum))))"

text \<open>
  The summary of one ticker, the body of the loop of the endpoint: the branch for no
  news, and the statistics otherwise.
\<close>

definition summarize :: "item list \<Rightarrow> error + (string \<times> pyval) list" where
  "summarize news =
     (if news = [] then
        Inr [(''total_news'', PInt 0), (''positive'', PInt 0), (''negative'', PInt 0),
             (''neutral'', PInt 0), (''avg_sentiment_score'', PInt 0)]
      else
        (case count_sentiment ''positive'' news of Inl e \<Rightarrow> Inl e | Inr positive \<Rightarrow>
        (case count_sentiment ''negative'' news of Inl e \<Rightarrow> Inl e | Inr negative \<Rightarrow>
        (case count_sentiment ''neutral'' news of Inl e \<Rightarrow> Inl e | Inr neutral \<Rightarrow>
        (case sentiment_sums news of Inl e \<Rightarrow> Inl e
         | Inr (weighted_sum, total_weight, polarity_sum) \<Rightarrow>
            Inr [(''total_news'', PInt (int (length news))),
                 (''positive'', PInt positive),
                 (''negative'', PInt negative),
                 (''neutral'', PInt neutral),
                 (''avg_sentiment_score'',
                    PFloat (real_of_int polarity_sum / real (length news))),
                 (''weighted_avg_score'',
                    (if total_weight > 0 then PFloat (weighted_sum / total_weight)
                     else PInt 0))])))))"

section \<open>Reference notions and sample inputs\<close>

text \<open>
  The number of positions of \<open>t\<close> at which \<open>w\<close> starts: the occurrences of a
  keyword in a text, counted one by one.
\<close>

primrec occurrences :: "string \<Rightarrow> string \<Rightarrow> nat" where
  "occurrences w [] = (if w = [] then 1 else 0)"
| "occurrences w (c # cs) = (if prefix w (c # cs) then 1 else 0) + occurrences w cs"

text \<open>
  The count as the specification words it: every occurrence of every configured keyword
  in the lower-cased text counts.
\<close>

fun spec_occurrence_count :: "pyval list \<Rightarrow> string \<Rightarrow> nat" where
  "spec_occurrence_count [] text = 0"
| "spec_occurrence_count (PStr w # ws) text =
     occurrences (lower w) (lower text) + spec_occurrence_count ws text"
| "spec_occurrence_count (v # ws) text = spec_occurrence_count ws text"

text \<open>The number of configured keywords that occur in the text at least once.\<close>

definition present :: "string list \<Rightarrow> string \<Rightarrow> nat" where
  "present ws text = length (filter (\<lambda>w. 0 < occurrences (lower w) (lower text)) ws)"

text \<open>
  The scorer as \<open>__init__\<close> leaves it when no environment variable is set, and an
  environment in which the clock stands still.
\<close>

definition init_model :: "real \<Rightarrow> SentimentModel" where
  "init_model t = \<lparr> model_version = ''rule-based-v1'', max_length = 512,
      config = default_config, request_count = 0, error_count = 0, latency_ms_sum = 0,
      last_metrics_save = t, registry = [] \<rparr>"

definition quiet_env :: "real \<Rightarrow> call_env" where
  "quiet_env r = \<lparr> t_start = 0, t_end = 0, t_check = 0, t_saved = 0, jitter = r,
      write_ok = True \<rparr>"

text \<open>
  The rows that the merging loop appends: those whose normalized title is non-empty, is
  not the normalized title of an item already there, and has not occurred in an earlier
  row; in the order of the rows.  \<open>fresh_from\<close> is the same relative to a set of
  titles.
\<close>

definition fresh_from :: "string set \<Rightarrow> item list \<Rightarrow> item list" where
  "fresh_from seen rows =
     map (nth rows)
       (filter (\<lambda>i. case normalized_title (rows ! i) of
                       Inl e \<Rightarrow> False
                     | Inr t \<Rightarrow> t \<noteq> [] \<and> t \<notin> seen
                         \<and> Inr t \<notin> set (map normalized_title (take i rows)))
          [0..<length rows])"

definition merged_rows :: "item list \<Rightarrow> item list \<Rightarrow> item list" where
  "merged_rows news_items rows =
     map (nth rows)
       (filter (\<lambda>i. case normalized_title (rows ! i) of
                       Inl e \<Rightarrow> False
                     | Inr t \<Rightarrow> t \<noteq> [] \<and> Inr t \<notin> set (map normalized_title news_items)
                         \<and> Inr t \<notin> set (map normalized_title (take i rows)))
          [0..<length rows])"


text \<open>
  Sample worlds, on 25 April 2024, whose date parser reads the one date string the
  sample rows carry: one in which the primary source answers with six articles, two of them
  with the same normalized title, and one without network whose spreadsheet has a row
  with an empty title cell.
\<close>

definition sample_now :: int where
  "sample_now = 739000 * day_us"

definition sample_to_datetime :: "pyval \<Rightarrow> error + int option" where
  "sample_to_datetime v =
     (if v = PStr ''2024-04-25 00:00:00'' then Inr (Some sample_now) else Inl ValueError)"

definition sample_article :: "string \<Rightarrow> article" where
  "sample_article t = \<lparr> a_title = Some t, a_source_name = ''Wire'',
      a_url = ''https://example.com/a'', a_published = Some sample_now \<rparr>"

definition live_world :: world where
  "live_world = \<lparr> probe = Response 200 (Json [] 0),
      news_api = (\<lambda>r. Response 200 (Json (map sample_article
         [''Profit surge'', ''Debt fears'', ''Quiet day'', ''quiet day '', ''New record'',
          ''Loss'']) 6)),
      excel_file = None, to_datetime = sample_to_datetime, wall_clock = sample_now,
      scorer_env = (\<lambda>k. quiet_env (1/2)) \<rparr>"

definition broken_sheet_world :: world where
  "broken_sheet_world = \<lparr> probe = NetworkError,
      news_api = (\<lambda>r. NetworkError),
      excel_file = Some [[(''title'', PNaN), (''publisher'', PStr ''Wire''),
         (''link'', PStr ''https://example.com/a''),
         (''published_date'', PStr ''2024-04-25 00:00:00''), (''ticker'', PStr ''GENERAL'')]],
      to_datetime = sample_to_datetime, wall_clock = sample_now,
      scorer_env = (\<lambda>k. quiet_env (1/2)) \<rparr>"

definition small_model :: SentimentModel where
  "small_model = (init_model 0)\<lparr> config :=
      Config [PStr ''surge'', PStr ''record''] [PStr ''loss'', PStr ''fears''] \<rparr>"

text \<open>
  A world without network whose spreadsheet has a row, a duplicate of it and a row with
  a blank title; and a primary source that answers the first page with 100 articles and
  the second with status 429.
\<close>

definition sheet_row :: "string \<Rightarrow> item" where
  "sheet_row t = [(''title'', PStr t), (''publisher'', PStr ''Wire''),
      (''link'', PStr ''https://example.com/a''),
      (''published_date'', PStr ''2024-04-25 00:00:00''), (''ticker'', PStr ''GENERAL'')]"

definition sheet_world :: world where
  "sheet_world = \<lparr> probe = NetworkError,
      news_api = (\<lambda>r. NetworkError),
      excel_file = Some [sheet_row ''Gold up'', sheet_row ''gold UP '', sheet_row ''   ''],
      to_datetime = sample_to_datetime, wall_clock = sample_now,
      scorer_env = (\<lambda>k. quiet_env (1/2)) \<rparr>"

definition throttled_page :: "article list" where
  "throttled_page = sample_article ''Debt fears'' # replicate 99 (sample_article ''Profit surge'')"

definition throttled_api :: "request \<Rightarrow> response" where
  "throttled_api r = (if r_page r = 1 then Response 200 (Json throttled_page 500)
                      else Response 429 Unparseable)"


section \<open>Properties of the scorer\<close>

lemma analyze_returns: "\<exists>a m'. analyze env m text = Inr (a, m')"
  by (simp add: analyze_def Let_def split: sum.splits)

lemma contains_occurrences: "contains w t \<longleftrightarrow> 0 < occurrences w t"
  by (induction t) auto

lemma contains_sublist: "contains w t \<longleftrightarrow> sublist w t"
  by (induction t) (auto simp: sublist_Cons_right)

lemma keyword_count_strings: "keyword_count (map PStr ws) text = Inr (present ws text)"
  by (induction ws) (auto simp: present_def contains_occurrences)

lemma default_config_split:
  "default_config = Config (positive_keywords default_config) (negative_keywords default_config)"
  by (simp add: default_config_def)

lemma rule_based_no_err: "analyze_rule_based r cfg text = Inr a \<Longrightarrow> err a = None"
  by (cases cfg) (auto split: sum.splits)

lemma rule_based_score:
  assumes "0 \<le> r" "r < 1" "analyze_rule_based r cfg text = Inr a"
  shows "0 \<le> score a \<and> score a \<le> 1 \<and> err a = None \<and>
     (\<exists>p n. details a = Some (p, n) \<and>
        (if p > n then sentiment a = Positive
            \<and> score a = min (0.7 + 0.1 * (real p - real n)) 0.95 + r * 0.05
         else if n > p then sentiment a = Negative
            \<and> score a = min (0.7 + 0.1 * (real n - real p)) 0.95 + r * 0.05
         else sentiment a = Neutral \<and> score a = 0.5 + r * 0.1))"
proof (cases cfg)
  case NotADict
  with assms show ?thesis by simp
next
  case (Config pos neg)
  with assms(3) obtain p n where
    p: "keyword_count pos text = Inr p" and n: "keyword_count neg text = Inr n"
    by (auto split: sum.splits)
  from assms(3) Config p n have a:
    "a = \<lparr> sentiment = (if p > n then Positive else if n > p then Negative else Neutral),
           score = (if p > n then base_score p n + r * 0.05
                    else if n > p then base_score n p + r * 0.05
                    else 0.5 + r * 0.1),
           details = Some (p, n), res_model_version = None, latency_ms = None,
           err = None \<rparr>"
    by simp
  have b: "\<And>x y. y < x \<Longrightarrow> 0 \<le> base_score x y \<and> base_score x y \<le> 0.95"
    by (simp add: base_score_def min_def)
  have j: "0 \<le> r * 0.05" "r * 0.05 \<le> 0.05" "0 \<le> r * 0.1" "r * 0.1 \<le> 0.1"
    using assms(1,2) by simp_all
  show ?thesis
  proof (cases "p > n")
    case True
    with a b[of n p] j show ?thesis by (simp add: base_score_def)
  next
    case False
    show ?thesis
    proof (cases "n > p")
      case True
      with a b[of p n] j \<open>\<not> p > n\<close> show ?thesis by (simp add: base_score_def)
    next
      case False
      with a j \<open>\<not> p > n\<close> show ?thesis by simp
    qed
  qed
qed

lemma py_take_prefix: "prefix (py_take n xs) xs"
  by (simp add: py_take_def take_is_prefix)

text \<open>
  Claim C4.  For every string, the empty one and those longer than the configured
  maximum included, \<open>analyze\<close> returns a result and does not raise.  The text that is
  scored is the input cut to the configured maximum: a prefix of the input, of at most
  that length when the maximum is not negative.  When the scoring of the cut text
  fails, the result is neutral with score 0.5 and carries the error, and the error
  counter has grown by exactly one; when it succeeds, the result has the label, the
  score and the counts of the scoring of the cut text, carries no error, and the counter
  is unchanged.
\<close>

theorem analyze_never_raises:
  "\<exists>a m'. analyze env m text = Inr (a, m') \<and>
     prefix (if int (length text) > max_length m then py_take (max_length m) text else text)
       text \<and>
     (0 \<le> max_length m \<longrightarrow>
        int (length (if int (length text) > max_length m then py_take (max_length m) text
                     else text)) \<le> max_length m) \<and>
     (\<forall>e. analyze_rule_based (jitter env) (config m)
            (if int (length text) > max_length m then py_take (max_length m) text else text)
          = Inl e \<longrightarrow>
        sentiment a = Neutral \<and> score a = 0.5 \<and> err a = Some e
        \<and> error_count m' = error_count m + 1) \<and>
     (\<forall>r. analyze_rule_based (jitter env) (config m)
            (if int (length text) > max_length m then py_take (max_length m) text else text)
          = Inr r \<longrightarrow>
        sentiment a = sentiment r \<and> score a = score r \<and> details a = details r
        \<and> err a = None \<and> error_count m' = error_count m)"
proof -
  let ?text = "if int (length text) > max_length m then py_take (max_length m) text else text"
  have p: "prefix ?text text" by (simp add: py_take_prefix)
  have l: "0 \<le> max_length m \<longrightarrow> int (length ?text) \<le> max_length m"
    by (simp add: py_take_def)
  show ?thesis
  proof (cases "analyze_rule_based (jitter env) (config m) ?text")
    case (Inl e)
    then show ?thesis using p l by (auto simp: analyze_def Let_def split: if_splits)
  next
    case (Inr r)
    then have "err r = None" by (rule rule_based_no_err)
    with Inr show ?thesis using p l
      by (auto simp: analyze_def Let_def save_metrics_def split: if_splits)
  qed
qed

theorem analyze_never_raises_witness:
  "(\<exists>a m'. analyze (quiet_env 0) (small_model\<lparr> config := NotADict \<rparr>) [] = Inr (a, m')
        \<and> analyze_rule_based 0 NotADict [] = Inl AttributeError
        \<and> sentiment a = Neutral \<and> score a = 0.5 \<and> err a = Some AttributeError
        \<and> error_count m' = 1)
   \<and> (\<exists>a m'. analyze (quiet_env 0) (small_model\<lparr> max_length := 8 \<rparr>) ''abcdsurge''
                 = Inr (a, m')
        \<and> int (length ''abcdsurge'') > 8 \<and> py_take 8 ''abcdsurge'' = ''abcdsurg''
        \<and> sentiment a = Neutral \<and> details a = Some (0, 0) \<and> score a = 0.5
        \<and> err a = None \<and> error_count m' = 0)
   \<and> (\<exists>r. analyze_rule_based 0 (config small_model) ''abcdsurge'' = Inr r
        \<and> sentiment r = Positive \<and> details r = Some (1, 0))"
proof -
  have t: "py_take 8 ''abcdsurge'' = ''abcdsurg''" by (simp add: py_take_def)
  have cut: "analyze_rule_based 0 (config small_model) ''abcdsurg'' =
      Inr \<lparr> sentiment = Neutral, score = 1/2, details = Some (0, 0),
            res_model_version = None, latency_ms = None, err = None \<rparr>"
    by code_simp
  have whole: "\<exists>r. analyze_rule_based 0 (config small_model) ''abcdsurge'' = Inr r
        \<and> sentiment r = Positive \<and> details r = Some (1, 0)"
  proof -
    have "map_sum id (\<lambda>r. (sentiment r, details r))
            (analyze_rule_based 0 (config small_model) ''abcdsurge'')
          = Inr (Positive, Some (1, 0))"
      by code_simp
    then show ?thesis
      by (cases "analyze_rule_based 0 (config small_model) ''abcdsurge''") auto
  qed
  have a: "\<exists>a m'. analyze (quiet_env 0) (small_model\<lparr> config := NotADict \<rparr>) [] = Inr (a, m')
        \<and> analyze_rule_based 0 NotADict [] = Inl AttributeError
        \<and> sentiment a = Neutral \<and> score a = 0.5 \<and> err a = Some AttributeError
        \<and> error_count m' = 1"
    using analyze_never_raises [of "quiet_env 0" "small_model\<lparr> config := NotADict \<rparr>" "[]"]
    by (auto simp: small_model_def init_model_def quiet_env_def)
  have b: "\<exists>a m'. analyze (quiet_env 0) (small_model\<lparr> max_length := 8 \<rparr>) ''abcdsurge''
                 = Inr (a, m')
        \<and> int (length ''abcdsurge'') > 8 \<and> py_take 8 ''abcdsurge'' = ''abcdsurg''
        \<and> sentiment a = Neutral \<and> details a = Some (0, 0) \<and> score a = 0.5
        \<and> err a = None \<and> error_count m' = 0"
    using analyze_never_raises
      [of "quiet_env 0" "small_model\<lparr> max_length := 8 \<rparr>" "''abcdsurge''"] t cut
    by (auto simp: small_model_def init_model_def quiet_env_def)
  from a b whole show ?thesis by blast
qed

text \<open>
  Claim C6 as stated fails: in the text \<open>surge surge\<close> the keyword \<open>surge\<close> occurs
  twice, and the scorer with the built-in keywords counts 1.
\<close>

theorem keyword_counted_once_counterexample:
  "keyword_count (positive_keywords default_config) ''surge surge'' = Inr 1
   \<and> spec_occurrence_count (positive_keywords default_config) ''surge surge'' = 2"
  by code_simp

text \<open>
  Claim C6, amended.  For keyword lists of strings and every text, the positive and the
  negative count of the rule-based scorer are the numbers of configured positive and
  negative keywords that occur at least once, case-insensitively and as substrings, in
  the text it is given; how often a keyword occurs makes no difference.
\<close>

theorem keyword_count_is_membership:
  "\<exists>a. analyze_rule_based r (Config (map PStr ps) (map PStr ns)) text = Inr a
     \<and> details a = Some (present ps text, present ns text)"
  by (simp add: keyword_count_strings)

text \<open>
  Claim C8.  For every text and every jitter draw in \<open>[0, 1)\<close>, the score that
  \<open>analyze\<close> returns lies in \<open>[0, 1]\<close>.  With more positive than negative keywords
  the label is positive and the score is \<open>min (0.7 + 0.1 * difference) 0.95\<close> plus the
  draw times 0.05; symmetrically for negative; with equal counts the label is neutral
  and the score is 0.5 plus the draw times 0.1; in the error branch it is 0.5.  The
  score is never negative, so the polarity is in the label alone.
\<close>

theorem analyze_score_in_unit_interval:
  assumes "0 \<le> jitter env" "jitter env < 1"
  shows "\<exists>a m'. analyze env m text = Inr (a, m') \<and> 0 \<le> score a \<and> score a \<le> 1 \<and>
     (case details a of
        None \<Rightarrow> sentiment a = Neutral \<and> score a = 0.5 \<and> err a \<noteq> None
      | Some (p, n) \<Rightarrow> err a = None \<and>
         (if p > n then sentiment a = Positive
             \<and> score a = min (0.7 + 0.1 * (real p - real n)) 0.95 + jitter env * 0.05
          else if n > p then sentiment a = Negative
             \<and> score a = min (0.7 + 0.1 * (real n - real p)) 0.95 + jitter env * 0.05
          else sentiment a = Neutral \<and> score a = 0.5 + jitter env * 0.1))"
proof -
  let ?m1 = "m\<lparr> request_count := request_count m + 1 \<rparr>"
  let ?text = "if int (length text) > max_length ?m1 then py_take (max_length ?m1) text else text"
  show ?thesis
  proof (cases "analyze_rule_based (jitter env) (config ?m1) ?text")
    case (Inl e)
    then show ?thesis by (simp add: analyze_def Let_def)
  next
    case (Inr a)
    from rule_based_score[OF assms Inr] Inr show ?thesis
      by (auto simp: analyze_def Let_def)
  qed
qed

theorem analyze_score_in_unit_interval_witness:
  "0 \<le> jitter (quiet_env (1/2)) \<and> jitter (quiet_env (1/2)) < 1 \<and>
   (\<exists>a m'. analyze (quiet_env (1/2)) (init_model 0) ''Profit surge'' = Inr (a, m')
      \<and> sentiment a = Positive \<and> score a = 37/40 \<and> 0 \<le> score a \<and> score a \<le> 1)"
proof -
  have h: "0 \<le> jitter (quiet_env (1/2))" "jitter (quiet_env (1/2)) < 1"
    by (simp_all add: quiet_env_def)
  have k: "keyword_count (positive_keywords default_config) ''Profit surge'' = Inr 2"
    "keyword_count (negative_keywords default_config) ''Profit surge'' = Inr 0"
    by code_simp+
  have rb: "analyze_rule_based (1/2) default_config ''Profit surge'' =
      Inr \<lparr> sentiment = Positive, score = 37/40, details = Some (2, 0),
            res_model_version = None, latency_ms = None, err = None \<rparr>"
    by (subst default_config_split) (simp add: k base_score_def)
  have a: "\<exists>a m'. analyze (quiet_env (1/2)) (init_model 0) ''Profit surge'' = Inr (a, m')
     \<and> sentiment a = Positive \<and> score a = 37/40"
    by (simp add: analyze_def Let_def init_model_def quiet_env_def rb)
  from analyze_score_in_unit_interval[OF h, of "init_model 0" "''Profit surge''"] a
  show ?thesis using h by (auto simp: quiet_env_def)
qed

section \<open>Properties of the summary\<close>

lemma summarize_nonempty_has_weighted_avg:
  "news \<noteq> [] \<Longrightarrow> summarize news = Inr s \<Longrightarrow> map_of s ''weighted_avg_score'' \<noteq> None"
  by (auto simp: summarize_def split: sum.splits prod.splits)

text \<open>
  Claim C3.  The summary of no news is returned without error and holds the five zero
  entries \<open>total_news\<close>, \<open>positive\<close>, \<open>negative\<close>, \<open>neutral\<close> and
  \<open>avg_sentiment_score\<close>; the entry \<open>weighted_avg_score\<close>, which the claim expects
  and every non-empty summary has, is missing from it.
\<close>

theorem summarize_empty_lacks_weighted_avg:
  "\<exists>s. summarize [] = Inr s
     \<and> s = [(''total_news'', PInt 0), (''positive'', PInt 0),
          (''negative'', PInt 0), (''neutral'', PInt 0), (''avg_sentiment_score'', PInt 0)]
     \<and> map_of s ''weighted_avg_score'' = None"
  by (simp add: summarize_def)

section \<open>Properties of the pipeline\<close>

lemma normalized_title_news_entry [simp]:
  "normalized_title (news_entry title p l d t) = Inr (lower (strip title))"
  by (simp add: normalized_title_def news_entry_def get_str_def)

lemma normalized_title_scored_item [simp]:
  "normalized_title (scored_item title it ticker a) = Inr (lower (strip title))"
  by (simp add: normalized_title_def scored_item_def get_str_def)

lemma build_items_unseen:
  "x \<in> set (build_items ticker seen arts) \<Longrightarrow>
     \<exists>s. normalized_title x = Inr s \<and> s \<notin> seen"
  by (induction arts arbitrary: seen)
     (auto split: option.splits if_splits)

lemma build_items_distinct:
  "distinct (map normalized_title (build_items ticker seen arts))"
proof (induction arts arbitrary: seen)
  case Nil
  then show ?case by simp
next
  case (Cons a arts)
  show ?case
  proof (cases "a_title a")
    case None
    then show ?thesis using Cons.IH by simp
  next
    case (Some title)
    have "Inr (lower (strip title))
            \<notin> normalized_title ` set (build_items ticker (insert (lower (strip title)) seen) arts)"
      using build_items_unseen by fastforce
    then show ?thesis using Some Cons.IH
      by (auto split: option.splits)
  qed
qed

lemma get_news_from_api_distinct:
  "distinct (map normalized_title (get_news_from_api api now ticker days max_results))"
  by (simp add: get_news_from_api_def build_items_distinct split: sum.splits)

lemma existing_titles_set:
  "existing_titles news = Inr titles \<Longrightarrow> Inr ` titles = set (map normalized_title news)"
  by (induction news arbitrary: titles) (auto split: sum.splits)

lemma merge_loop_distinct:
  "merge_loop items news titles = Inr out \<Longrightarrow>
   Inr ` titles = set (map normalized_title news) \<Longrightarrow>
   distinct (map normalized_title news) \<Longrightarrow>
   distinct (map normalized_title out)"
proof (induction items arbitrary: news titles)
  case Nil
  then show ?case by simp
next
  case (Cons it items)
  from Cons.prems(1) obtain title where t: "normalized_title it = Inr title"
    by (auto split: sum.splits)
  show ?case
  proof (cases "title \<noteq> [] \<and> title \<notin> titles")
    case True
    with Cons.prems(1) t have m: "merge_loop items (news @ [it]) (insert title titles) = Inr out"
      by simp
    have "Inr title \<notin> set (map normalized_title news)"
      using True Cons.prems(2) by (metis image_iff sum.inject(2))
    then have d: "distinct (map normalized_title (news @ [it]))"
      using Cons.prems(3) t by simp
    have s: "Inr ` insert title titles = set (map normalized_title (news @ [it]))"
      using Cons.prems(2) t by auto
    from Cons.IH[OF m s d] show ?thesis .
  next
    case False
    with Cons.prems(1) t have "merge_loop items news titles = Inr out"
      by auto
    from Cons.IH[OF this Cons.prems(2,3)] show ?thesis .
  qed
qed

lemma merge_new_distinct:
  "merge_new items news = Inr out \<Longrightarrow> distinct (map normalized_title news) \<Longrightarrow>
   distinct (map normalized_title out)"
  by (auto simp: merge_new_def split: if_splits sum.splits
           dest: existing_titles_set merge_loop_distinct)

lemma py_take_is_take: "\<exists>k. py_take n xs = take k xs"
  by (auto simp: py_take_def)

lemma py_take_distinct: "distinct (map f xs) \<Longrightarrow> distinct (map f (py_take n xs))"
  by (auto simp: py_take_def take_map[symmetric] distinct_take)

lemma py_take_length: "0 \<le> n \<Longrightarrow> int (length (py_take n xs)) \<le> n"
  by (simp add: py_take_def)

lemma process_items_titles:
  "process_items envs k m ticker items = (Inr out, m') \<Longrightarrow>
   set (map normalized_title out) \<subseteq> set (map normalized_title items)
   \<and> (distinct (map normalized_title items) \<longrightarrow> distinct (map normalized_title out))
   \<and> length out \<le> length items"
proof (induction items arbitrary: k m out)
  case Nil
  then show ?case by simp
next
  case (Cons it items)
  show ?case
  proof (cases "get_str it ''title''")
    case (PStr title)
    show ?thesis
    proof (cases "title = []")
      case True
      with Cons.prems PStr have "process_items envs k m ticker items = (Inr out, m')" by simp
      from Cons.IH[OF this] show ?thesis by auto
    next
      case False
      obtain a m1 where a: "analyze (envs k) m title = Inr (a, m1)"
        using analyze_returns by blast
      with Cons.prems PStr False obtain rest where
        r: "process_items envs (Suc k) m1 ticker items = (Inr rest, m')"
        and o: "out = scored_item title it ticker a # rest"
        by (auto split: prod.splits sum.splits)
      have n: "normalized_title it = Inr (lower (strip title))"
        using PStr by (simp add: normalized_title_def)
      from Cons.IH[OF r] o n show ?thesis by auto
    qed
  next
    case (PInt x)
    with Cons.prems have "process_items envs k m ticker items = (Inr out, m')"
      by (simp split: if_splits)
    from Cons.IH[OF this] show ?thesis by auto
  next
    case (PFloat x)
    with Cons.prems have "process_items envs k m ticker items = (Inr out, m')"
      by (simp split: if_splits)
    from Cons.IH[OF this] show ?thesis by auto
  next
    case (PTime x)
    with Cons.prems show ?thesis by simp
  next
    case PNaN
    with Cons.prems show ?thesis by simp
  next
    case PNone
    with Cons.prems have "process_items envs k m ticker items = (Inr out, m')"
      by simp
    from Cons.IH[OF this] show ?thesis by auto
  qed
qed

lemma upt_0_Suc: "[0..<Suc n] = 0 # map Suc [0..<n]"
  by (simp add: upt_conv_Cons map_Suc_upt del: upt_Suc)

lemma fresh_from_Nil [simp]: "fresh_from seen [] = []"
  by (simp add: fresh_from_def)

lemma fresh_from_Cons_new:
  assumes "normalized_title r = Inr t" "t \<noteq> []" "t \<notin> seen"
  shows "fresh_from seen (r # rows) = r # fresh_from (insert t seen) rows"
proof -
  have "filter ((\<lambda>i. case normalized_title ((r # rows) ! i) of
                       Inl e \<Rightarrow> False
                     | Inr t \<Rightarrow> t \<noteq> [] \<and> t \<notin> seen
                         \<and> Inr t \<notin> set (map normalized_title (take i (r # rows)))) \<circ> Suc)
          [0..<length rows]
      = filter (\<lambda>i. case normalized_title (rows ! i) of
                       Inl e \<Rightarrow> False
                     | Inr t' \<Rightarrow> t' \<noteq> [] \<and> t' \<notin> insert t seen
                         \<and> Inr t' \<notin> set (map normalized_title (take i rows)))
          [0..<length rows]"
    using assms by (intro filter_cong) (auto split: sum.splits)
  then show ?thesis
    using assms
    by (simp add: fresh_from_def upt_0_Suc filter_map del: upt_Suc)
qed

lemma fresh_from_Cons_old:
  assumes "normalized_title r = Inr t" "t = [] \<or> t \<in> seen"
  shows "fresh_from seen (r # rows) = fresh_from seen rows"
proof -
  have "filter ((\<lambda>i. case normalized_title ((r # rows) ! i) of
                       Inl e \<Rightarrow> False
                     | Inr t \<Rightarrow> t \<noteq> [] \<and> t \<notin> seen
                         \<and> Inr t \<notin> set (map normalized_title (take i (r # rows)))) \<circ> Suc)
          [0..<length rows]
      = filter (\<lambda>i. case normalized_title (rows ! i) of
                       Inl e \<Rightarrow> False
                     | Inr t' \<Rightarrow> t' \<noteq> [] \<and> t' \<notin> seen
                         \<and> Inr t' \<notin> set (map normalized_title (take i rows)))
          [0..<length rows]"
    using assms by (intro filter_cong) (auto split: sum.splits)
  then show ?thesis
    using assms
    by (auto simp: fresh_from_def upt_0_Suc filter_map simp del: upt_Suc)
qed

lemma merge_loop_fresh:
  "merge_loop rows news seen = Inr out \<Longrightarrow> out = news @ fresh_from seen rows"
proof (induction rows arbitrary: news seen)
  case Nil
  then show ?case by simp
next
  case (Cons r rows)
  from Cons.prems obtain t where t: "normalized_title r = Inr t"
    by (auto split: sum.splits)
  show ?case
  proof (cases "t \<noteq> [] \<and> t \<notin> seen")
    case True
    with Cons.prems t have "merge_loop rows (news @ [r]) (insert t seen) = Inr out" by simp
    from Cons.IH[OF this] fresh_from_Cons_new[OF t, of seen rows] True show ?thesis by simp
  next
    case False
    with Cons.prems t have "merge_loop rows news seen = Inr out" by auto
    from Cons.IH[OF this] fresh_from_Cons_old[OF t, of seen rows] False show ?thesis by auto
  qed
qed

lemma merged_rows_fresh:
  assumes "Inr ` seen = set (map normalized_title news)"
  shows "merged_rows news rows = fresh_from seen rows"
proof -
  have "\<And>t. (Inr t :: error + string) \<in> set (map normalized_title news) \<longleftrightarrow> t \<in> seen"
    using assms by (metis image_iff sum.inject(2))
  then show ?thesis
    unfolding merged_rows_def fresh_from_def
    by (intro arg_cong[where f = "map (nth rows)"] filter_cong) (auto split: sum.splits)
qed

lemma merged_rows_Nil [simp]: "merged_rows news [] = []"
  by (simp add: merged_rows_def)

lemma merge_new_merged_rows:
  assumes "merge_new rows news = Inr out"
  shows "out = news @ merged_rows news rows"
proof (cases "rows = []")
  case True
  with assms show ?thesis by (simp add: merge_new_def)
next
  case False
  with assms obtain seen where e: "existing_titles news = Inr seen"
    and l: "merge_loop rows news seen = Inr out"
    by (auto simp: merge_new_def split: sum.splits)
  from merged_rows_fresh[OF existing_titles_set[OF e], of rows] merge_loop_fresh[OF l]
  show ?thesis by simp
qed

lemma process_items_shape:
  "process_items envs k m ticker items = (Inr out, m') \<Longrightarrow>
   \<forall>x \<in> set out. \<exists>title it a. x = scored_item title it ticker a \<and> title \<noteq> []"
proof (induction items arbitrary: k m out)
  case Nil
  then show ?case by simp
next
  case (Cons it items)
  show ?case
  proof (cases "get_str it ''title''")
    case (PStr title)
    show ?thesis
    proof (cases "title = []")
      case True
      with Cons.prems PStr have "process_items envs k m ticker items = (Inr out, m')" by simp
      from Cons.IH[OF this] show ?thesis .
    next
      case False
      obtain a m1 where a: "analyze (envs k) m title = Inr (a, m1)"
        using analyze_returns by blast
      with Cons.prems PStr False obtain rest where
        r: "process_items envs (Suc k) m1 ticker items = (Inr rest, m')"
        and o: "out = scored_item title it ticker a # rest"
        by (auto split: prod.splits sum.splits)
      from Cons.IH[OF r] o False show ?thesis by auto
    qed
  next
    case (PInt x)
    with Cons.prems have "process_items envs k m ticker items = (Inr out, m')"
      by (simp split: if_splits)
    from Cons.IH[OF this] show ?thesis .
  next
    case (PFloat x)
    with Cons.prems have "process_items envs k m ticker items = (Inr out, m')"
      by (simp split: if_splits)
    from Cons.IH[OF this] show ?thesis .
  next
    case (PTime x)
    with Cons.prems show ?thesis by simp
  next
    case PNaN
    with Cons.prems show ?thesis by simp
  next
    case PNone
    with Cons.prems have "process_items envs k m ticker items = (Inr out, m')"
      by simp
    from Cons.IH[OF this] show ?thesis .
  qed
qed

lemma primary_fetch_distinct:
  "distinct (map normalized_title (snd (primary_fetch w ticker days max_results)))"
  by (simp add: primary_fetch_def get_news_from_api_distinct)

lemma supplement_excel_distinct:
  "supplement_excel w ticker days max_results news = (f, Inr out) \<Longrightarrow>
   distinct (map normalized_title news) \<Longrightarrow> distinct (map normalized_title out)"
  by (auto simp: supplement_excel_def Let_def split: if_splits dest: merge_new_distinct)

lemma last_resort_demo_distinct:
  "last_resort_demo w ticker days news = (f, Inr out) \<Longrightarrow>
   distinct (map normalized_title news) \<Longrightarrow> distinct (map normalized_title out)"
  by (auto simp: last_resort_demo_def split: if_splits sum.splits dest: merge_new_distinct)

lemma try_result:
  assumes "get_financial_news_try w m ticker days max_results = (Inr out, oc)"
  shows "\<exists>merged m'. distinct (map normalized_title merged) \<and>
     process_items (scorer_env w) 0 m ticker
       (if int (length merged) > max_results then py_take max_results merged else merged)
       = (Inr out, m')"
proof -
  obtain f0 api_items where p: "primary_fetch w ticker days max_results = (f0, api_items)"
    by (cases "primary_fetch w ticker days max_results")
  have d0: "distinct (map normalized_title api_items)"
    using primary_fetch_distinct[of w ticker days max_results] p by simp
  obtain f1 r1 where s: "supplement_excel w ticker days max_results api_items = (f1, r1)"
    by (cases "supplement_excel w ticker days max_results api_items")
  from assms p s obtain news where r1: "r1 = Inr news"
    by (cases r1) (auto simp: get_financial_news_try_def)
  have d1: "distinct (map normalized_title news)"
    using supplement_excel_distinct[OF s[unfolded r1] d0] .
  obtain f2 r2 where l: "last_resort_demo w ticker days news = (f2, r2)"
    by (cases "last_resort_demo w ticker days news")
  from assms p s r1 l obtain merged where r2: "r2 = Inr merged"
    by (cases r2) (auto simp: get_financial_news_try_def)
  have d2: "distinct (map normalized_title merged)"
    using last_resort_demo_distinct[OF l[unfolded r2] d1] .
  from assms p s r1 l r2 have
    "\<exists>m'. process_items (scorer_env w) 0 m ticker
       (if int (length merged) > max_results then py_take max_results merged else merged)
       = (Inr out, m')"
    by (auto simp: get_financial_news_try_def Let_def split: prod.splits)
  with d2 show ?thesis by blast
qed

lemma get_financial_news_cases:
  "(\<exists>e oc. get_financial_news_try w m ticker (max 1 days) max_results = (Inl e, oc)
       \<and> get_financial_news w m ticker days max_results = (Inr [], oc))
   \<or> (\<exists>out oc. get_financial_news_try w m ticker (max 1 days) max_results = (Inr out, oc)
       \<and> get_financial_news w m ticker days max_results = (Inr out, oc))"
  by (cases "get_financial_news_try w m ticker (max 1 days) max_results")
     (auto simp: get_financial_news_def split: sum.splits)

lemma live_world_run:
  "(case get_financial_news live_world small_model ''AAPL'' 7 10 of
      (r, oc) \<Rightarrow>
        (map_sum id (map (\<lambda>x. (map_of x ''title'', map_of x ''sentiment'',
                                  map_of x ''score''))) r,
         fetched oc))
   = (Inr [(Some (PStr ''Profit surge''), Some (PStr ''positive''), Some (PFloat (33/40))),
           (Some (PStr ''Debt fears''), Some (PStr ''negative''), Some (PFloat (33/40))),
           (Some (PStr ''Quiet day''), Some (PStr ''neutral''), Some (PFloat (11/20))),
           (Some (PStr ''New record''), Some (PStr ''positive''), Some (PFloat (33/40))),
           (Some (PStr ''Loss''), Some (PStr ''negative''), Some (PFloat (33/40)))],
      [NewsAPI])"
  by code_simp

lemma live_world_result:
  "\<exists>out oc. get_financial_news live_world small_model ''AAPL'' 7 10 = (Inr out, oc)
     \<and> length out = 5 \<and> fetched oc = [NewsAPI]"
proof -
  obtain r oc where g: "get_financial_news live_world small_model ''AAPL'' 7 10 = (r, oc)"
    by (cases "get_financial_news live_world small_model ''AAPL'' 7 10")
  with live_world_run have
    m: "map_sum id (map (\<lambda>x. (map_of x ''title'', map_of x ''sentiment'',
                                  map_of x ''score''))) r
        = Inr [(Some (PStr ''Profit surge''), Some (PStr ''positive''), Some (PFloat (33/40))),
           (Some (PStr ''Debt fears''), Some (PStr ''negative''), Some (PFloat (33/40))),
           (Some (PStr ''Quiet day''), Some (PStr ''neutral''), Some (PFloat (11/20))),
           (Some (PStr ''New record''), Some (PStr ''positive''), Some (PFloat (33/40))),
           (Some (PStr ''Loss''), Some (PStr ''negative''), Some (PFloat (33/40)))]"
    and f: "fetched oc = [NewsAPI]"
    by simp_all
  from m obtain out where r: "r = Inr out" by (cases r) auto
  with m have "length out = 5" by (auto dest: arg_cong[where f = length])
  with g r f show ?thesis by simp
qed

lemma broken_sheet_world_run:
  "fst (get_financial_news_try broken_sheet_world small_model ''AAPL'' (max 1 7) 10)
     = Inl AttributeError"
  by code_simp

text \<open>
  Claim C1.  For every ticker, every \<open>days\<close> and every \<open>max_results\<close> of at
  least 1, \<open>get_financial_news\<close> returns a list of at most \<open>max_results\<close>
  items.
\<close>

theorem result_length_at_most_max_results:
  assumes "1 \<le> max_results"
  shows "\<exists>out. fst (get_financial_news w m ticker days max_results) = Inr out
     \<and> int (length out) \<le> max_results"
proof -
  from get_financial_news_cases[of w m ticker days max_results] show ?thesis
  proof (elim disjE exE conjE)
    fix e oc
    assume "get_financial_news w m ticker days max_results = (Inr [], oc)"
    with assms show ?thesis by simp
  next
    fix out oc
    assume t: "get_financial_news_try w m ticker (max 1 days) max_results = (Inr out, oc)"
      and g: "get_financial_news w m ticker days max_results = (Inr out, oc)"
    from try_result[OF t] obtain merged m' where
      pr: "process_items (scorer_env w) 0 m ticker
       (if int (length merged) > max_results then py_take max_results merged else merged)
       = (Inr out, m')" by blast
    have "int (length (if int (length merged) > max_results then py_take max_results merged
                       else merged)) \<le> max_results"
      using assms py_take_length[of max_results merged] by auto
    moreover from process_items_titles[OF pr]
    have "length out \<le> length (if int (length merged) > max_results
                                  then py_take max_results merged else merged)"
      by blast
    ultimately have "int (length out) \<le> max_results" by linarith
    with g show ?thesis by simp
  qed
qed

theorem result_length_at_most_max_results_witness:
  "(1::int) \<le> 10 \<and>
   (\<exists>out. fst (get_financial_news live_world small_model ''AAPL'' 7 10) = Inr out
      \<and> length out = 5 \<and> int (length out) \<le> 10)"
  using result_length_at_most_max_results[of 10 live_world small_model "''AAPL''" 7]
    live_world_result
  by auto


text \<open>
  Claim C2.  For every ticker, \<open>days\<close> and \<open>max_results\<close>, whatever the three
  sources contribute, every item that \<open>get_financial_news\<close> returns has a string
  title, and no two of them have the same normalized (stripped, lower-cased) title.
\<close>

theorem result_titles_distinct:
  "\<exists>out ts. fst (get_financial_news w m ticker days max_results) = Inr out
     \<and> map normalized_title out = map Inr ts \<and> distinct ts"
proof -
  have key: "\<exists>ts. map normalized_title out = map Inr ts \<and> distinct ts"
    if d: "distinct (map normalized_title out)"
      and sh: "\<forall>x \<in> set out. \<exists>title it a. x = scored_item title it ticker a \<and> title \<noteq> []"
    for out
  proof -
    have "\<forall>x \<in> set out. \<exists>t. normalized_title x = Inr t"
      using sh by fastforce
    then have "\<exists>ts. map normalized_title out = map Inr ts"
      by (induction out) (auto, metis list.simps(9))
    then obtain ts where ts: "map normalized_title out = map Inr ts" by blast
    with d have "distinct (map (Inr :: string \<Rightarrow> error + string) ts)" by simp
    then have "distinct ts" by (simp add: distinct_map)
    with ts show ?thesis by blast
  qed
  from get_financial_news_cases[of w m ticker days max_results] show ?thesis
  proof (elim disjE exE conjE)
    fix e oc
    assume "get_financial_news w m ticker days max_results = (Inr [], oc)"
    then show ?thesis by simp
  next
    fix out oc
    assume t: "get_financial_news_try w m ticker (max 1 days) max_results = (Inr out, oc)"
      and g: "get_financial_news w m ticker days max_results = (Inr out, oc)"
    from try_result[OF t] obtain merged m' where
      dm: "distinct (map normalized_title merged)" and
      pr: "process_items (scorer_env w) 0 m ticker
       (if int (length merged) > max_results then py_take max_results merged else merged)
       = (Inr out, m')" by blast
    have "distinct (map normalized_title
       (if int (length merged) > max_results then py_take max_results merged else merged))"
      using dm py_take_distinct[of normalized_title merged max_results] by simp
    with process_items_titles[OF pr] have "distinct (map normalized_title out)" by blast
    from key[OF this process_items_shape[OF pr]] g show ?thesis by simp
  qed
qed

text \<open>
  Claim C5.  \<open>get_financial_news\<close> always returns a list: whenever the body of its
  \<open>try\<close> block (fetching, merging, scoring) raises, the result is the empty list.
\<close>

theorem get_financial_news_never_raises:
  "(\<exists>out. fst (get_financial_news w m ticker days max_results) = Inr out)
   \<and> (\<forall>e. fst (get_financial_news_try w m ticker (max 1 days) max_results) = Inl e
        \<longrightarrow> fst (get_financial_news w m ticker days max_results) = Inr [])"
  using get_financial_news_cases[of w m ticker days max_results] by auto

theorem get_financial_news_never_raises_witness:
  "fst (get_financial_news_try broken_sheet_world small_model ''AAPL'' (max 1 7) 10)
     = Inl AttributeError
   \<and> fst (get_financial_news broken_sheet_world small_model ''AAPL'' 7 10) = Inr []"
  using get_financial_news_never_raises[of broken_sheet_world small_model "''AAPL''" 7 10]
    broken_sheet_world_run
  by simp


text \<open>
  Claim C10.  Every item that \<open>get_financial_news\<close> returns has exactly the seven
  keys \<open>title\<close>, \<open>publisher\<close>, \<open>link\<close>, \<open>published_date\<close>, \<open>ticker\<close>,
  \<open>sentiment\<close> and \<open>score\<close>; its ticker is the requested one and its title is a
  non-empty string, whatever the source rows contained.
\<close>

theorem result_items_shape:
  "\<exists>out. fst (get_financial_news w m ticker days max_results) = Inr out \<and>
     (\<forall>x \<in> set out.
        map fst x = [''title'', ''publisher'', ''link'', ''published_date'', ''ticker'',
                     ''sentiment'', ''score'']
        \<and> map_of x ''ticker'' = Some (PStr ticker)
        \<and> (\<exists>t. map_of x ''title'' = Some (PStr t) \<and> t \<noteq> []))"
proof -
  from get_financial_news_cases[of w m ticker days max_results] show ?thesis
  proof (elim disjE exE conjE)
    fix e oc
    assume "get_financial_news w m ticker days max_results = (Inr [], oc)"
    then show ?thesis by simp
  next
    fix out oc
    assume t: "get_financial_news_try w m ticker (max 1 days) max_results = (Inr out, oc)"
      and g: "get_financial_news w m ticker days max_results = (Inr out, oc)"
    from try_result[OF t] obtain merged m' where
      pr: "process_items (scorer_env w) 0 m ticker
       (if int (length merged) > max_results then py_take max_results merged else merged)
       = (Inr out, m')" by blast
    from process_items_shape[OF pr] g show ?thesis
      by (fastforce simp: scored_item_def)
  qed
qed

lemma sheet_world_run:
  "map_sum id (map (\<lambda>x. (map_of x ''title'', map_of x ''ticker'')))
     (fst (get_financial_news sheet_world small_model ''AAPL'' 7 10))
   = Inr [(Some (PStr ''Gold up''), Some (PStr ''AAPL'')),
          (Some (PStr ''Markets reach record highs as tech stocks surge''),
           Some (PStr ''AAPL'')),
          (Some (PStr ''Federal Reserve announces plans to maintain interest rates''),
           Some (PStr ''AAPL'')),
          (Some (PStr ''Global recession fears grow as manufacturing slows''),
           Some (PStr ''AAPL'')),
          (Some (PStr ''Inflation data shows signs of moderating, analysts say''),
           Some (PStr ''AAPL'')),
          (Some (PStr ''AAPL reports record quarterly earnings, exceeding expectations''),
           Some (PStr ''AAPL'')),
          (Some (PStr ''New AAPL product line launches to strong demand''),
           Some (PStr ''AAPL'')),
          (Some (PStr ''Analyst downgrades AAPL citing supply chain concerns''),
           Some (PStr ''AAPL''))]"
  by code_simp

theorem result_items_shape_witness:
  "\<exists>out. fst (get_financial_news sheet_world small_model ''AAPL'' 7 10) = Inr out
     \<and> length out = 8
     \<and> map_of (hd out) ''title'' = Some (PStr ''Gold up'')
     \<and> (\<forall>x \<in> set out.
          map fst x = [''title'', ''publisher'', ''link'', ''published_date'', ''ticker'',
                       ''sentiment'', ''score'']
          \<and> map_of x ''ticker'' = Some (PStr ''AAPL'')
          \<and> (\<exists>t. map_of x ''title'' = Some (PStr t) \<and> t \<noteq> []))"
proof -
  from result_items_shape[of sheet_world small_model "''AAPL''" 7 10] obtain out where
    o: "fst (get_financial_news sheet_world small_model ''AAPL'' 7 10) = Inr out"
    and sh: "\<forall>x \<in> set out.
          map fst x = [''title'', ''publisher'', ''link'', ''published_date'', ''ticker'',
                       ''sentiment'', ''score'']
          \<and> map_of x ''ticker'' = Some (PStr ''AAPL'')
          \<and> (\<exists>t. map_of x ''title'' = Some (PStr t) \<and> t \<noteq> [])"
    by blast
  from sheet_world_run o have m:
    "map (\<lambda>x. (map_of x ''title'', map_of x ''ticker'')) out
     = [(Some (PStr ''Gold up''), Some (PStr ''AAPL'')),
          (Some (PStr ''Markets reach record highs as tech stocks surge''),
           Some (PStr ''AAPL'')),
          (Some (PStr ''Federal Reserve announces plans to maintain interest rates''),
           Some (PStr ''AAPL'')),
          (Some (PStr ''Global recession fears grow as manufacturing slows''),
           Some (PStr ''AAPL'')),
          (Some (PStr ''Inflation data shows signs of moderating, analysts say''),
           Some (PStr ''AAPL'')),
          (Some (PStr ''AAPL reports record quarterly earnings, exceeding expectations''),
           Some (PStr ''AAPL'')),
          (Some (PStr ''New AAPL product line launches to strong demand''),
           Some (PStr ''AAPL'')),
          (Some (PStr ''Analyst downgrades AAPL citing supply chain concerns''),
           Some (PStr ''AAPL''))]"
    by simp
  then have l: "length out = 8" by (auto dest: arg_cong[where f = length])
  from m have h: "map_of (hd out) ''title'' = Some (PStr ''Gold up'')"
    by (cases out) auto
  from o sh l h show ?thesis by blast
qed

lemma fetched_excel_try:
  "Excel \<in> set (fetched (snd (get_financial_news_try w m ticker days max_results)))
   \<longleftrightarrow> days > 30
       \<or> int (length (snd (primary_fetch w ticker days max_results))) < min 30 (max_results div 2)"
proof -
  obtain f0 api_items where p: "primary_fetch w ticker days max_results = (f0, api_items)"
    by (cases "primary_fetch w ticker days max_results")
  have f0: "Excel \<notin> set f0" using p by (auto simp: primary_fetch_def split: if_splits)
  obtain f1 r1 where s: "supplement_excel w ticker days max_results api_items = (f1, r1)"
    by (cases "supplement_excel w ticker days max_results api_items")
  have f1: "Excel \<in> set f1 \<longleftrightarrow>
      days > 30 \<or> int (length api_items) < min 30 (max_results div 2)"
    using s by (auto simp: supplement_excel_def Let_def split: if_splits)
  show ?thesis
  proof (cases r1)
    case (Inl e)
    with p s f0 f1 show ?thesis by (simp add: get_financial_news_try_def)
  next
    case (Inr news)
    obtain f2 r2 where l: "last_resort_demo w ticker days news = (f2, r2)"
      by (cases "last_resort_demo w ticker days news")
    have f2: "Excel \<notin> set f2" using l by (auto simp: last_resort_demo_def split: if_splits)
    show ?thesis
    proof (cases r2)
      case (Inl e)
      with p s Inr l f0 f1 f2 show ?thesis by (simp add: get_financial_news_try_def)
    next
      case r2: (Inr merged)
      with p s Inr l f0 f1 f2 show ?thesis
        by (simp add: get_financial_news_try_def Let_def split: prod.splits)
    qed
  qed
qed

lemma get_financial_news_outcome:
  "snd (get_financial_news w m ticker days max_results)
     = snd (get_financial_news_try w m ticker (max 1 days) max_results)"
  using get_financial_news_cases[of w m ticker days max_results] by auto


lemma sheet_world_primary: "primary_fetch sheet_world ''AAPL'' days max_results = ([], [])"
  by (simp add: primary_fetch_def sheet_world_def)

lemma sheet_world_rows:
  "get_news_from_excel (excel_file sheet_world) (to_datetime sheet_world)
        (wall_clock sheet_world) ''AAPL'' 7
     = [sheet_row ''Gold up'', sheet_row ''gold UP '', sheet_row ''   '']"
  by code_simp

lemma sheet_world_supplement:
  "supplement_excel sheet_world ''AAPL'' 7 10 [] = ([Excel], Inr [sheet_row ''Gold up''])"
  by code_simp


text \<open>
  Claim C7 as stated fails twice.  With \<open>max_results = 1\<close> and no primary item,
  0 is below \<open>min(30, 1/2)\<close>, yet the spreadsheet is not fetched, the threshold being
  \<open>1 // 2 = 0\<close>.  And a fetched row with a blank title, whose normalized title is the
  empty string and is in no item before it, is not merged.
\<close>

theorem excel_supplement_counterexample:
  "(0::real) < min 30 (1 / 2)
   \<and> snd (primary_fetch sheet_world ''AAPL'' 1 1) = []
   \<and> Excel \<notin> set (fetched (snd (get_financial_news sheet_world small_model ''AAPL'' 1 1)))
   \<and> get_news_from_excel (excel_file sheet_world) (to_datetime sheet_world)
        (wall_clock sheet_world) ''AAPL'' 7
        = [sheet_row ''Gold up'', sheet_row ''gold UP '', sheet_row ''   '']
   \<and> normalized_title (sheet_row ''   '') = Inr []
   \<and> Inr [] \<notin> set (map normalized_title [sheet_row ''Gold up'', sheet_row ''gold UP ''])
   \<and> supplement_excel sheet_world ''AAPL'' 7 10 (snd (primary_fetch sheet_world ''AAPL'' 7 10))
        = ([Excel], Inr [sheet_row ''Gold up''])"
proof -
  have a: "(0::real) < min 30 (1 / 2)" by simp
  have b: "fetched (snd (get_financial_news sheet_world small_model ''AAPL'' 1 1)) = [Demo]"
    by code_simp
  have c: "normalized_title (sheet_row ''   '') = Inr []"
    "normalized_title (sheet_row ''Gold up'') = Inr ''gold up''"
    "normalized_title (sheet_row ''gold UP '') = Inr ''gold up''"
    by code_simp+
  show ?thesis
    using a b c by (simp add: sheet_world_primary sheet_world_rows sheet_world_supplement)
qed


text \<open>
  Claim C7, amended.  For \<open>days\<close> and \<open>max_results\<close> of at least 1, the
  pipeline calls the spreadsheet adapter if and only if \<open>days > 30\<close> or the number of
  primary items is below \<open>min(30, max_results // 2)\<close>, the half rounded down.  When it
  does and the merge does not raise, the items after the step are the primary items
  followed, in order, by exactly the spreadsheet rows whose normalized title is
  non-empty and is neither the normalized title of a primary item nor of an earlier
  row; when it does not, they are the primary items.
\<close>

theorem excel_supplement_policy:
  assumes "1 \<le> days" "1 \<le> max_results"
  shows "(Excel \<in> set (fetched (snd (get_financial_news w m ticker days max_results)))
            \<longleftrightarrow> days > 30
                \<or> int (length (snd (primary_fetch w ticker days max_results)))
                    < min 30 (max_results div 2))
     \<and> (\<forall>news.
          snd (supplement_excel w ticker days max_results
                 (snd (primary_fetch w ticker days max_results))) = Inr news \<longrightarrow>
          news =
            (if days > 30
                \<or> int (length (snd (primary_fetch w ticker days max_results)))
                    < min 30 (max_results div 2)
             then snd (primary_fetch w ticker days max_results)
                  @ merged_rows (snd (primary_fetch w ticker days max_results))
                      (get_news_from_excel (excel_file w) (to_datetime w) (wall_clock w) ticker days)
             else snd (primary_fetch w ticker days max_results)))"
proof -
  from assms(1) have d: "max 1 days = days" by simp
  have a: "Excel \<in> set (fetched (snd (get_financial_news w m ticker days max_results)))
            \<longleftrightarrow> days > 30
                \<or> int (length (snd (primary_fetch w ticker days max_results)))
                    < min 30 (max_results div 2)"
    using fetched_excel_try[of w m ticker days max_results]
    by (simp add: get_financial_news_outcome d)
  have b: "news =
            (if days > 30 \<or> int (length prim) < min 30 (max_results div 2)
             then prim @ merged_rows prim
                      (get_news_from_excel (excel_file w) (to_datetime w) (wall_clock w) ticker days)
             else prim)"
    if "snd (supplement_excel w ticker days max_results prim) = Inr news" for news prim
    using that
    by (auto simp: supplement_excel_def Let_def split: if_splits dest: merge_new_merged_rows)
  from a b show ?thesis by blast
qed


theorem excel_supplement_policy_witness:
  "(1::int) \<le> 7 \<and> (1::int) \<le> 10
   \<and> Excel \<in> set (fetched (snd (get_financial_news sheet_world small_model ''AAPL'' 7 10)))
   \<and> snd (supplement_excel sheet_world ''AAPL'' 7 10
             (snd (primary_fetch sheet_world ''AAPL'' 7 10))) = Inr [sheet_row ''Gold up'']"
  using excel_supplement_policy[of 7 10 sheet_world small_model "''AAPL''"]
  by (simp add: sheet_world_primary sheet_world_supplement)


lemma upt_Suc_concat: "concat (map f [0..<Suc k]) = f 0 @ concat (map (f \<circ> Suc) [0..<k])"
  by (simp add: upt_0_Suc del: upt_Suc)

lemma fetch_pages_collects:
  assumes "\<forall>i<k. api (page_request ticker days max_results (p + i))
                   = Response 200 (Json (arts i) (tot i))"
    and "\<forall>i<k. min 100 max_results \<le> int (length (arts i))"
    and "\<forall>i<k. int (length (acc @ concat (map arts [0..<Suc i]))) < tot i"
    and "int (length (acc @ concat (map arts [0..<k]))) < max_results"
    and "api (page_request ticker days max_results (p + k)) = Response st b"
    and "st \<noteq> 200"
  shows "fetch_pages api ticker days max_results p acc = Inr (acc @ concat (map arts [0..<k]))"
  using assms
proof (induction k arbitrary: p acc arts tot)
  case 0
  then show ?case by (subst fetch_pages.simps) simp
next
  case (Suc k)
  have room: "int (length acc) < max_results"
    using Suc.prems(4) by (simp del: upt_Suc)
  have pg: "api (page_request ticker days max_results p) = Response 200 (Json (arts 0) (tot 0))"
    using Suc.prems(1) by (metis add.right_neutral zero_less_Suc)
  have full: "\<not> int (length (arts 0)) < min 100 max_results"
    using Suc.prems(2) by (metis not_less zero_less_Suc)
  have more: "\<not> tot 0 \<le> int (length (acc @ arts 0))"
    using Suc.prems(3)[rule_format, of 0] by simp
  have step: "fetch_pages api ticker days max_results p acc
      = fetch_pages api ticker days max_results (p + 1) (acc @ arts 0)"
    using room pg full more by (subst fetch_pages.simps) auto
  have ih: "fetch_pages api ticker days max_results (p + 1) (acc @ arts 0)
      = Inr ((acc @ arts 0) @ concat (map (arts \<circ> Suc) [0..<k]))"
  proof (rule Suc.IH[where tot = "tot \<circ> Suc"])
    show "\<forall>i<k. api (page_request ticker days max_results (p + 1 + i))
            = Response 200 (Json ((arts \<circ> Suc) i) ((tot \<circ> Suc) i))"
      using Suc.prems(1) by (auto simp: )
    show "\<forall>i<k. min 100 max_results \<le> int (length ((arts \<circ> Suc) i))"
      using Suc.prems(2) by auto
    show "\<forall>i<k. int (length ((acc @ arts 0) @ concat (map (arts \<circ> Suc) [0..<Suc i])))
            < (tot \<circ> Suc) i"
    proof (intro allI impI)
      fix i assume "i < k"
      then have "int (length (acc @ concat (map arts [0..<Suc (Suc i)]))) < tot (Suc i)"
        using Suc.prems(3) by (metis Suc_less_eq)
      then show "int (length ((acc @ arts 0) @ concat (map (arts \<circ> Suc) [0..<Suc i])))
            < (tot \<circ> Suc) i"
        by (simp only: upt_Suc_concat[of arts "Suc i"] append_assoc comp_apply)
    qed
    show "int (length ((acc @ arts 0) @ concat (map (arts \<circ> Suc) [0..<k]))) < max_results"
      using Suc.prems(4) by (simp only: upt_Suc_concat[of arts k] append_assoc)
    show "api (page_request ticker days max_results (p + 1 + k)) = Response st b"
      using Suc.prems(5) by simp
    show "st \<noteq> 200" by (rule Suc.prems(6))
  qed
  show ?case
    using step ih by (simp only: upt_Suc_concat[of arts k] append_assoc)
qed

text \<open>
  Claim C9.  Let the date window be computable, let the first \<open>k\<close> page requests
  of \<open>get_news_from_api\<close> succeed with
  full pages that neither reach \<open>max_results\<close> nor exhaust \<open>totalResults\<close>, and
  let the next request answer with a status other than 200 (429 included).  Then paging
  stops and the function returns the items built from all the articles of those \<open>k\<close>
  pages: nothing collected before the failure is dropped.
\<close>

theorem paging_failure_keeps_collected_pages:
  assumes "days_ago now (min days 30) = Inr start_date"
    and "\<forall>i<k. api (page_request ticker days max_results (Suc i))
                   = Response 200 (Json (arts i) (tot i))"
    and "\<forall>i<k. min 100 max_results \<le> int (length (arts i))"
    and "\<forall>i<k. int (length (concat (map arts [0..<Suc i]))) < tot i"
    and "int (length (concat (map arts [0..<k]))) < max_results"
    and "api (page_request ticker days max_results (Suc k)) = Response st b"
    and "st \<noteq> 200"
  shows "get_news_from_api api now ticker days max_results
           = build_items ticker {} (concat (map arts [0..<k]))"
proof -
  have f: "fetch_pages api ticker days max_results 1 [] = Inr ([] @ concat (map arts [0..<k]))"
    by (rule fetch_pages_collects[where tot = tot and st = st and b = b])
       (use assms(2-7) in simp_all)
  have t: "py_take max_results (concat (map arts [0..<k])) = concat (map arts [0..<k])"
    using assms(5) by (simp add: py_take_def)
  show ?thesis using f by (simp add: get_news_from_api_def assms(1) t)
qed

lemma throttled_page_items:
  "build_items ''AAPL'' {} throttled_page
     = [news_entry ''Debt fears'' ''Wire'' ''https://example.com/a'' sample_now ''AAPL'',
        news_entry ''Profit surge'' ''Wire'' ''https://example.com/a'' sample_now ''AAPL'']"
  by code_simp

lemma sample_now_window: "days_ago sample_now (min 7 30) = Inr (sample_now - 7 * day_us)"
  by (simp add: days_ago_def sample_now_def day_us_def max_instant_def)

theorem paging_failure_keeps_collected_pages_witness:
  "days_ago sample_now (min 7 30) = Inr (sample_now - 7 * day_us)
   \<and> throttled_api (page_request ''AAPL'' 7 150 1) = Response 200 (Json throttled_page 500)
   \<and> throttled_api (page_request ''AAPL'' 7 150 2) = Response 429 Unparseable
   \<and> get_news_from_api throttled_api sample_now ''AAPL'' 7 150
        = [news_entry ''Debt fears'' ''Wire'' ''https://example.com/a'' sample_now ''AAPL'',
           news_entry ''Profit surge'' ''Wire'' ''https://example.com/a'' sample_now ''AAPL'']"
proof -
  have p1: "throttled_api (page_request ''AAPL'' 7 150 1) = Response 200 (Json throttled_page 500)"
    and p2: "throttled_api (page_request ''AAPL'' 7 150 2) = Response 429 Unparseable"
    by (simp_all add: throttled_api_def page_request_def)
  have len: "length throttled_page = 100" by (simp add: throttled_page_def)
  have "get_news_from_api throttled_api sample_now ''AAPL'' 7 150
          = build_items ''AAPL'' {} (concat (map (\<lambda>i. throttled_page) [0..<1]))"
    by (rule paging_failure_keeps_collected_pages
              [where tot = "\<lambda>i. 500" and st = 429 and b = Unparseable
                 and start_date = "sample_now - 7 * day_us"])
       (use p1 p2 len sample_now_window in \<open>simp_all add: numeral_2_eq_2\<close>)
  then show ?thesis using p1 p2 sample_now_window by (simp add: throttled_page_items)
qed

end
